theory Spec2Isabelle
  imports Main "HOL-Library.Word" "HOL-Library.Finite_Map"
begin

section \<open>Values shared with the collaborators of the template builder\<close>

text \<open>
  The file under verification is \<^verbatim>\<open>x-pack/functionbeat/manager/gcp/template_builder.go\<close>.
  A Go \<^verbatim>\<open>error\<close> is an interface value. The builder makes one itself, with
  \<^verbatim>\<open>errors.New\<close>; every other error reaches it from a collaborator (the provider
  registry, the archive writer, the configuration loader) and is only passed on.
  \<open>None\<close> of type \<open>error option\<close> is Go's \<^verbatim>\<open>nil\<close> error.
\<close>

datatype error = errors_New string | foreign_error string

text \<open>
  A call that dereferences a \<^verbatim>\<open>nil\<close> pointer or calls a method of a \<^verbatim>\<open>nil\<close> interface
  panics and returns nothing; \<open>Return\<close> carries what a completed call hands back.
\<close>

datatype 'a outcome = Panic | Return 'a

type_synonym byte = "8 word"

text \<open>
  Modelled from the spec: the struct \<^verbatim>\<open>fngcp.FunctionConfig\<close> is declared in another
  package. Its fields are the ones \<^verbatim>\<open>requestBody\<close> reads; \<^verbatim>\<open>Timeout\<close> is a
  \<^verbatim>\<open>time.Duration\<close> (a count of nanoseconds), \<^verbatim>\<open>Labels\<close> a \<^verbatim>\<open>map[string]string\<close>
  (a finite map, whose \<^verbatim>\<open>len\<close> is the number of its keys),
  the trigger a provider-defined struct that is passed through (type \<open>'t\<close>), and the
  method \<^verbatim>\<open>EntryPoint()\<close> reads the unexported field.
\<close>

record 't FunctionConfig =
  Description :: string
  entryPoint :: string
  Trigger :: 't
  Timeout :: int
  MemorySize :: int
  ServiceAccountEmail :: string
  Labels :: "(string, string) fmap"
  MaxInstances :: int
  VPCConnector :: string

definition EntryPoint :: "'t FunctionConfig \<Rightarrow> string" where
  "EntryPoint config = entryPoint config"

text \<open>
  Modelled from the spec: the provider configuration \<^verbatim>\<open>Config\<close> of package gcp
  (project identifier, location identifier, storage bucket identifier).
\<close>

record Config =
  ProjectID :: string
  Location :: string
  FunctionStorage :: string

text \<open>
  \<^verbatim>\<open>common.MapStr\<close> is \<^verbatim>\<open>map[string]interface{}\<close>, a finite map. The values the
  builder stores are strings, integers, the label map, the trigger and one nested
  \<^verbatim>\<open>MapStr\<close>. A composite literal is \<open>fmap_of_list\<close> of its entries, the assignment
  \<^verbatim>\<open>body[k] = v\<close> is \<open>fmupd k v body\<close>, and \<open>fmlookup\<close> reads a key.
\<close>

datatype 't Value =
    VString string
  | VInt int
  | VLabels "(string, string) fmap"
  | VTrigger 't
  | VMapStr "(string, 't Value) fmap"

type_synonym 't MapStr = "(string, 't Value) fmap"

text \<open>
  \<^verbatim>\<open>fmt.Sprintf\<close> for the only verb the format constants of this file hold,
  \<^verbatim>\<open>%s\<close> with a string operand: the operand is copied as it is and never scanned
  again. A verb that finds no operand prints \<^verbatim>\<open>%!s(MISSING)\<close>. Other verbs and
  operands left over after the last verb do not occur in this file and are not
  modelled.
\<close>

fun Sprintf :: "string \<Rightarrow> string list \<Rightarrow> string" where
  "Sprintf (c # d # format) args =
     (if c = CHR ''%'' \<and> d = CHR ''s''
      then (case args of
              [] \<Rightarrow> ''%!s(MISSING)'' @ Sprintf format []
            | a # rest \<Rightarrow> a @ Sprintf format rest)
      else c # Sprintf (d # format) args)"
| "Sprintf format args = format"

section \<open>Constants of the builder\<close>

definition runtime :: string where
  "runtime = ''go111''"

definition sourceArchiveURL :: string where
  "sourceArchiveURL = ''gs://%s/%s''"

definition locationTemplate :: string where
  "locationTemplate = ''projects/%s/locations/%s''"

definition functionName :: string where
  "functionName = locationTemplate @ ''/functions/%s''"

section \<open>The builder and its collaborators\<close>

text \<open>
  Modelled from the spec: the interface \<^verbatim>\<open>installer\<close> (declared beside this file)
  exposes \<^verbatim>\<open>Name()\<close>, the function's type name, and \<^verbatim>\<open>Config()\<close>, a pointer to
  its configuration. A registry entry is a \<^verbatim>\<open>provider.Function\<close>: it either
  implements \<^verbatim>\<open>installer\<close> or is some other object, of which only a label is kept.
\<close>

datatype 't installer = installer (Name: string) (Config: "'t FunctionConfig option")

datatype 't Function = InstallerFunction "'t installer" | OtherFunction string

text \<open>
  The interface \<^verbatim>\<open>provider.Provider\<close> is used through one method, which returns a Go
  pair: the function (possibly \<^verbatim>\<open>nil\<close>) and an error (possibly \<^verbatim>\<open>nil\<close>).
\<close>

datatype 't Provider =
  Provider (FindFunctionByName: "string \<Rightarrow> 't Function option \<times> error option")

datatype Logger = Logger string

datatype log_entry = Debug string | Debugf string "nat list"

record 't defaultTemplateBuilder =
  provider :: "'t Provider option"
  log :: "Logger option"
  gcpConfig :: "Config option"

record 't functionData =
  raw :: "byte list"
  body :: "'t MapStr"

text \<open>
  \<^verbatim>\<open>bundle.LocalFile\<close> is the only \<^verbatim>\<open>bundle.Resource\<close> this file builds: a path and
  a file mode.
\<close>

datatype Resource = LocalFile (Path: string) (FileMode: nat)

text \<open>
  The package-level functions and methods of other packages that the builder calls:
  \<^verbatim>\<open>core.MakeZip\<close>, \<^verbatim>\<open>provider.ListFunctions\<close>, \<^verbatim>\<open>time.Duration.String\<close> and
  \<^verbatim>\<open>common.MapStr.StringToPrint\<close>. They are parameters of the development.
\<close>

record 't externals =
  MakeZip :: "Resource list \<Rightarrow> byte list \<times> error option"
  ListFunctions :: "string \<Rightarrow> string list \<times> error option"
  Duration_String :: "int \<Rightarrow> string"
  StringToPrint :: "'t MapStr \<Rightarrow> string"

section \<open>Rendering the request body\<close>

definition requestBody ::
  "'t externals \<Rightarrow> 't defaultTemplateBuilder \<Rightarrow> string \<Rightarrow> 't FunctionConfig option
     \<Rightarrow> 't MapStr outcome" where
  "requestBody ext d name config =
     (case gcpConfig d of
        None \<Rightarrow> Panic
      | Some g \<Rightarrow>
        (case config of
           None \<Rightarrow> Panic
         | Some c \<Rightarrow>
           let fnName = Sprintf functionName [ProjectID g, Location g, name];
               body = fmap_of_list
                        [(''name'', VString fnName),
                         (''description'', VString (Description c)),
                         (''entryPoint'', VString (EntryPoint c)),
                         (''runtime'', VString runtime),
                         (''sourceArchiveUrl'',
                            VString (Sprintf sourceArchiveURL [FunctionStorage g, name])),
                         (''eventTrigger'', VTrigger (Trigger c)),
                         (''environmentVariables'',
                            VMapStr (fmap_of_list [(''ENABLED_FUNCTIONS'', VString name)]))];
               body = (if 0 < Timeout c
                       then fmupd ''timeout'' (VString (Duration_String ext (Timeout c))) body
                       else body);
               body = (if 0 < MemorySize c
                       then fmupd ''memorySize'' (VInt (MemorySize c)) body
                       else body);
               body = (if 0 < length (ServiceAccountEmail c)
                       then fmupd ''serviceAccountEmail'' (VString (ServiceAccountEmail c)) body
                       else body);
               body = (if 0 < fcard (fmdom (Labels c))
                       then fmupd ''labels'' (VLabels (Labels c)) body
                       else body);
               body = (if 0 < MaxInstances c
                       then fmupd ''maxInstances'' (VInt (MaxInstances c)) body
                       else body);
               body = (if 0 < length (VPCConnector c)
                       then fmupd ''vpcConnector'' (VString (VPCConnector c)) body
                       else body)
           in Return body))"

section \<open>Resolving a function\<close>

definition findFunction ::
  "'t Provider option \<Rightarrow> string \<Rightarrow> ('t installer option \<times> error option) outcome" where
  "findFunction p name =
     (case p of
        None \<Rightarrow> Panic
      | Some prov \<Rightarrow>
        (case FindFunctionByName prov name of
           (fn, err) \<Rightarrow>
             if err \<noteq> None then Return (None, err)
             else (case fn of
                     Some (InstallerFunction function) \<Rightarrow> Return (Some function, None)
                   | _ \<Rightarrow>
                     Return (None,
                       Some (errors_New
                         (''incompatible type received, expecting: 'functionManager''
                            @ [CHR 0x27]))))))"

section \<open>The files of the archive\<close>

text \<open>
  \<^verbatim>\<open>strings.Join\<close>, and \<^verbatim>\<open>filepath.Join\<close> of the Go library for a target whose
  separator is the slash. \<^verbatim>\<open>filepath.Join\<close> drops leading empty elements, joins the
  rest with the separator and cleans the result lexically: empty elements and \<^verbatim>\<open>.\<close>
  elements go, a \<^verbatim>\<open>..\<close> element removes the element before it (at the root it is
  dropped, at the start of a relative path it stays), and an empty result is \<^verbatim>\<open>.\<close>.
\<close>

fun strings_Join :: "string list \<Rightarrow> string \<Rightarrow> string" where
  "strings_Join [] sep = []"
| "strings_Join [e] sep = e"
| "strings_Join (e # es) sep = e @ sep @ strings_Join es sep"

fun path_elements :: "string \<Rightarrow> string list" where
  "path_elements [] = [[]]"
| "path_elements (c # cs) =
     (if c = CHR ''/'' then [] # path_elements cs
      else (case path_elements cs of
              [] \<Rightarrow> [[c]]
            | e # es \<Rightarrow> (c # e) # es))"

fun clean_elements :: "bool \<Rightarrow> string list \<Rightarrow> string list \<Rightarrow> string list" where
  "clean_elements rooted out [] = rev out"
| "clean_elements rooted out (e # es) =
     (if e = [] \<or> e = ''.'' then clean_elements rooted out es
      else if e = ''..'' then
        (case out of
           [] \<Rightarrow> if rooted then clean_elements rooted [] es
                 else clean_elements rooted [e] es
         | prev # below \<Rightarrow>
             if prev = ''..'' then clean_elements rooted (e # out) es
             else clean_elements rooted below es)
      else clean_elements rooted (e # out) es)"

definition filepath_Clean :: "string \<Rightarrow> string" where
  "filepath_Clean path =
     (if path = [] then ''.''
      else let rooted = (hd path = CHR ''/'');
               cleaned = (if rooted then ''/'' else [])
                           @ strings_Join (clean_elements rooted [] (path_elements path)) ''/''
           in if cleaned = [] then ''.'' else cleaned)"

definition filepath_Join :: "string list \<Rightarrow> string" where
  "filepath_Join elem =
     (case dropWhile (\<lambda>e. e = []) elem of
        [] \<Rightarrow> []
      | es \<Rightarrow> filepath_Clean (strings_Join es ''/''))"

text \<open>A file mode written in octal, as the Go literals \<^verbatim>\<open>0755\<close> and \<^verbatim>\<open>0655\<close> are.\<close>

definition octal :: "nat list \<Rightarrow> nat" where
  "octal digits = foldl (\<lambda>acc digit. 8 * acc + digit) 0 digits"

definition zipResources :: "string \<Rightarrow> Resource list" where
  "zipResources typeName =
     [LocalFile (filepath_Join [''pkg'', typeName, typeName @ ''.go'']) (octal [7, 5, 5]),
      LocalFile (filepath_Join [''pkg'', typeName, ''go.mod'']) (octal [6, 5, 5]),
      LocalFile (filepath_Join [''pkg'', typeName, ''go.sum'']) (octal [6, 5, 5])]"

text \<open>
  \<^verbatim>\<open>ZipResources\<close> returns a slice and nothing else; \<open>None\<close> is the \<^verbatim>\<open>nil\<close> slice of
  its early return, \<open>Some\<close> the slice made with \<^verbatim>\<open>make\<close> and grown by the loop.
\<close>

definition ZipResources :: "'t externals \<Rightarrow> Resource list option" where
  "ZipResources ext =
     (case ListFunctions ext ''gcp'' of
        (functions, err) \<Rightarrow>
          if err \<noteq> None then None
          else Some (foldl (\<lambda>resources f. resources @ zipResources f) [] functions))"

section \<open>The builder's operations\<close>

text \<open>
  \<^verbatim>\<open>execute\<close> is the build operation. Its result is a Go pair (pointer to the function
  data, error). The entries it writes to the builder's logger are returned beside the
  outcome. A \<^verbatim>\<open>nil\<close> logger (whose methods read a field of the logger), provider or
  configuration makes the call panic where the source first uses it.
\<close>

definition execute ::
  "'t externals \<Rightarrow> 't defaultTemplateBuilder \<Rightarrow> string
     \<Rightarrow> log_entry list \<times> ('t functionData option \<times> error option) outcome" where
  "execute ext d name =
     (case log d of
        None \<Rightarrow> ([], Panic)
      | Some logger \<Rightarrow>
        let entries = [Debug ''Compressing all assets into an artifact''] in
        (case findFunction (provider d) name of
           Panic \<Rightarrow> (entries, Panic)
         | Return (fn, err) \<Rightarrow>
             if err \<noteq> None then (entries, Return (None, err))
             else (case fn of
                None \<Rightarrow> (entries, Panic)
              | Some function \<Rightarrow>
                  let resources = zipResources (Name function) in
                  (case MakeZip ext resources of
                     (bytes, err) \<Rightarrow>
                       if err \<noteq> None then (entries, Return (None, err))
                       else
                         let entries = entries @
                               [Debugf ''Compression is successful (zip size: %d bytes)''
                                  [length bytes]]
                         in (case requestBody ext d name (Config function) of
                               Panic \<Rightarrow> (entries, Panic)
                             | Return rendered \<Rightarrow>
                                 (entries,
                                  Return (Some \<lparr>raw = bytes, body = rendered\<rparr>, None)))))))"

definition RawTemplate ::
  "'t externals \<Rightarrow> 't defaultTemplateBuilder \<Rightarrow> string \<Rightarrow> (string \<times> error option) outcome" where
  "RawTemplate ext d name =
     (case findFunction (provider d) name of
        Panic \<Rightarrow> Panic
      | Return (fn, err) \<Rightarrow>
          if err \<noteq> None then Return ([], err)
          else (case fn of
                  None \<Rightarrow> Panic
                | Some function \<Rightarrow>
                    (case requestBody ext d name (Config function) of
                       Panic \<Rightarrow> Panic
                     | Return rendered \<Rightarrow> Return (StringToPrint ext rendered, None))))"

text \<open>
  \<^verbatim>\<open>common.Config.Unpack\<close> fills the struct it is given and returns an error; the
  raw configuration is an object with that one method.
\<close>

datatype common_Config = common_Config (Unpack: "Config \<Rightarrow> Config \<times> error option")

definition NewTemplateBuilder ::
  "Logger option \<Rightarrow> common_Config \<Rightarrow> 't Provider option
     \<Rightarrow> 't defaultTemplateBuilder option \<times> error option" where
  "NewTemplateBuilder logger cfg p =
     (case Unpack cfg \<lparr>ProjectID = [], Location = [], FunctionStorage = []\<rparr> of
        (gcpCfg, err) \<Rightarrow>
          if err \<noteq> None
          then (Some \<lparr>provider = None, log = None, gcpConfig = None\<rparr>, err)
          else (Some \<lparr>provider = p, log = logger, gcpConfig = Some gcpCfg\<rparr>, None))"

section \<open>A deployment used to evaluate the operations\<close>

text \<open>
  The scenario of the specification: the function \<^verbatim>\<open>es-storage\<close> of type
  \<^verbatim>\<open>storage\<close>, with a timeout of thirty seconds and 256 MB of memory; beside it a
  function with every optional value set, a function whose files cannot be read
  and a registry entry that is not installable. The collaborators are instances of
  the parameters: an archive writer that fails for the files of \<^verbatim>\<open>pkg/broken\<close>, a
  registry of two function types, and printers that know the values of this
  deployment.
\<close>

definition es_storage_config :: "string FunctionConfig" where
  "es_storage_config =
     \<lparr>Description = ''sync events'', entryPoint = ''Handle'',
      Trigger = ''google.storage.object.finalize'',
      Timeout = 30000000000, MemorySize = 256, ServiceAccountEmail = [],
      Labels = fmempty, MaxInstances = 0, VPCConnector = []\<rparr>"

definition full_config :: "string FunctionConfig" where
  "full_config =
     \<lparr>Description = ''all options'', entryPoint = ''Handle'',
      Trigger = ''google.pubsub.topic.publish'',
      Timeout = 30000000000, MemorySize = 512,
      ServiceAccountEmail = ''beat@my-project.iam.gserviceaccount.com'',
      Labels = fmupd ''team'' ''obs'' fmempty, MaxInstances = 3,
      VPCConnector = ''connector-1''\<rparr>"

definition default_config :: "string FunctionConfig" where
  "default_config =
     \<lparr>Description = ''defaults'', entryPoint = ''Handle'',
      Trigger = ''google.pubsub.topic.publish'',
      Timeout = 0, MemorySize = 0, ServiceAccountEmail = [],
      Labels = fmempty, MaxInstances = 0, VPCConnector = []\<rparr>"

definition example_gcp_config :: Config where
  "example_gcp_config =
     \<lparr>ProjectID = ''my-project'', Location = ''us-central1'',
      FunctionStorage = ''functionbeat-deploy''\<rparr>"

definition example_provider :: "string Provider" where
  "example_provider =
     Provider (\<lambda>name.
       if name = ''es-storage''
       then (Some (InstallerFunction (installer ''storage'' (Some es_storage_config))), None)
       else if name = ''ps-full''
       then (Some (InstallerFunction (installer ''pubsub'' (Some full_config))), None)
       else if name = ''no-files''
       then (Some (InstallerFunction (installer ''broken'' (Some default_config))), None)
       else if name = ''not-installable''
       then (Some (OtherFunction ''aws.SQS''), None)
       else (None, Some (foreign_error ''NotFoundError'')))"

definition example_builder :: "string defaultTemplateBuilder" where
  "example_builder =
     \<lparr>provider = Some example_provider, log = Some (Logger ''functionbeat''),
      gcpConfig = Some example_gcp_config\<rparr>"

definition example_externals :: "string externals" where
  "example_externals =
     \<lparr>MakeZip = (\<lambda>resources.
        if map Path resources = [''pkg/broken/broken.go'', ''pkg/broken/go.mod'', ''pkg/broken/go.sum'']
        then ([], Some (foreign_error ''IOError''))
        else ([80, 75, 3, 4], None)),
      ListFunctions = (\<lambda>kind.
        if kind = ''gcp'' then ([''storage'', ''pubsub''], None)
        else ([], Some (foreign_error ''unknown provider''))),
      Duration_String = (\<lambda>ns. if ns = 30000000000 then ''30s'' else ''?''),
      StringToPrint = (\<lambda>m. if fmlookup m ''name'' =
            Some (VString ''projects/my-project/locations/us-central1/functions/es-storage'')
          then ''{es-storage}'' else ''{}'')\<rparr>"

definition unconfigured_builder :: "string defaultTemplateBuilder" where
  "unconfigured_builder =
     \<lparr>provider = Some example_provider, log = Some (Logger ''functionbeat''),
      gcpConfig = None\<rparr>"

definition failing_registry :: "string \<Rightarrow> string externals" where
  "failing_registry message =
     example_externals\<lparr>ListFunctions := (\<lambda>kind. ([], Some (foreign_error message)))\<rparr>"



definition valid_cfg :: common_Config where
  "valid_cfg = common_Config (\<lambda>gcpCfg. (example_gcp_config, None))"

definition invalid_cfg :: common_Config where
  "invalid_cfg =
     common_Config (\<lambda>gcpCfg.
       (gcpCfg\<lparr>ProjectID := ''my-project''\<rparr>,
        Some (foreign_error ''missing required field accessing location_id'')))"

section \<open>Properties of the rendered request body\<close>

lemma Sprintf_functionName:
  "Sprintf functionName [p, l, n] = ''projects/'' @ p @ ''/locations/'' @ l @ ''/functions/'' @ n"
  by (simp add: functionName_def locationTemplate_def)

lemma Sprintf_sourceArchiveURL:
  "Sprintf sourceArchiveURL [b, n] = ''gs://'' @ b @ ''/'' @ n"
  by (simp add: sourceArchiveURL_def)

lemma len_labels: "(0 < fcard (fmdom m)) = (m \<noteq> fmempty)"
proof -
  have "m = fmempty" if "fmdom m = {||}"
  proof (rule fmap_ext)
    fix x
    from that have "x |\<notin>| fmdom m" by simp
    then show "fmlookup m x = fmlookup fmempty x" by (simp add: fmdom_notD)
  qed
  then have "(fmdom m = {||}) = (m = fmempty)" by auto
  then show ?thesis
    by (simp add: zero_less_iff_neq_zero)
qed

lemma cond_upd:
  "fmlookup (if b then fmupd k v m else m) k' =
     (if k' = k \<and> b then Some v else fmlookup m k')"
  by simp

text \<open>
  With a configuration in the builder and a configuration of the function, rendering
  returns. The lemmas after it read the rendered body key by key.
\<close>

lemma requestBody_returns:
  assumes "gcpConfig d = Some g"
  shows "\<exists>rendered. requestBody ext d name (Some c) = Return rendered"
  using assms by (simp add: requestBody_def Let_def)

lemma requestBody_nil_config: "requestBody ext d name None = Panic"
  by (simp add: requestBody_def split: option.split)

lemma requestBody_nil_gcpConfig: "gcpConfig d = None \<Longrightarrow> requestBody ext d name config = Panic"
  by (simp add: requestBody_def)

lemma requestBody_name:
  assumes "gcpConfig d = Some g" and "requestBody ext d name (Some c) = Return rendered"
  shows "fmlookup rendered ''name'' =
           Some (VString (''projects/'' @ ProjectID g @ ''/locations/'' @ Location g @ ''/functions/'' @ name))"
  using assms(2) [symmetric]
  by (simp add: requestBody_def Let_def cond_upd assms(1) Sprintf_functionName
        Sprintf_sourceArchiveURL runtime_def len_labels)

lemma requestBody_description:
  assumes "gcpConfig d = Some g" and "requestBody ext d name (Some c) = Return rendered"
  shows "fmlookup rendered ''description'' =
           Some (VString (Description c))"
  using assms(2) [symmetric]
  by (simp add: requestBody_def Let_def cond_upd assms(1) Sprintf_functionName
        Sprintf_sourceArchiveURL runtime_def len_labels)

lemma requestBody_entryPoint:
  assumes "gcpConfig d = Some g" and "requestBody ext d name (Some c) = Return rendered"
  shows "fmlookup rendered ''entryPoint'' =
           Some (VString (EntryPoint c))"
  using assms(2) [symmetric]
  by (simp add: requestBody_def Let_def cond_upd assms(1) Sprintf_functionName
        Sprintf_sourceArchiveURL runtime_def len_labels)

lemma requestBody_runtime:
  assumes "gcpConfig d = Some g" and "requestBody ext d name (Some c) = Return rendered"
  shows "fmlookup rendered ''runtime'' =
           Some (VString ''go111'')"
  using assms(2) [symmetric]
  by (simp add: requestBody_def Let_def cond_upd assms(1) Sprintf_functionName
        Sprintf_sourceArchiveURL runtime_def len_labels)

lemma requestBody_sourceArchiveUrl:
  assumes "gcpConfig d = Some g" and "requestBody ext d name (Some c) = Return rendered"
  shows "fmlookup rendered ''sourceArchiveUrl'' =
           Some (VString (''gs://'' @ FunctionStorage g @ ''/'' @ name))"
  using assms(2) [symmetric]
  by (simp add: requestBody_def Let_def cond_upd assms(1) Sprintf_functionName
        Sprintf_sourceArchiveURL runtime_def len_labels)

lemma requestBody_eventTrigger:
  assumes "gcpConfig d = Some g" and "requestBody ext d name (Some c) = Return rendered"
  shows "fmlookup rendered ''eventTrigger'' =
           Some (VTrigger (Trigger c))"
  using assms(2) [symmetric]
  by (simp add: requestBody_def Let_def cond_upd assms(1) Sprintf_functionName
        Sprintf_sourceArchiveURL runtime_def len_labels)

lemma requestBody_environmentVariables:
  assumes "gcpConfig d = Some g" and "requestBody ext d name (Some c) = Return rendered"
  shows "fmlookup rendered ''environmentVariables'' =
           Some (VMapStr (fmap_of_list [(''ENABLED_FUNCTIONS'', VString name)]))"
  using assms(2) [symmetric]
  by (simp add: requestBody_def Let_def cond_upd assms(1) Sprintf_functionName
        Sprintf_sourceArchiveURL runtime_def len_labels)

lemma requestBody_timeout:
  assumes "gcpConfig d = Some g" and "requestBody ext d name (Some c) = Return rendered"
  shows "fmlookup rendered ''timeout'' =
           (if 0 < Timeout c then Some (VString (Duration_String ext (Timeout c))) else None)"
  using assms(2) [symmetric]
  by (simp add: requestBody_def Let_def cond_upd assms(1) Sprintf_functionName
        Sprintf_sourceArchiveURL runtime_def len_labels)

lemma requestBody_memorySize:
  assumes "gcpConfig d = Some g" and "requestBody ext d name (Some c) = Return rendered"
  shows "fmlookup rendered ''memorySize'' =
           (if 0 < MemorySize c then Some (VInt (MemorySize c)) else None)"
  using assms(2) [symmetric]
  by (simp add: requestBody_def Let_def cond_upd assms(1) Sprintf_functionName
        Sprintf_sourceArchiveURL runtime_def len_labels)

lemma requestBody_serviceAccountEmail:
  assumes "gcpConfig d = Some g" and "requestBody ext d name (Some c) = Return rendered"
  shows "fmlookup rendered ''serviceAccountEmail'' =
           (if ServiceAccountEmail c \<noteq> [] then Some (VString (ServiceAccountEmail c)) else None)"
  using assms(2) [symmetric]
  by (simp add: requestBody_def Let_def cond_upd assms(1) Sprintf_functionName
        Sprintf_sourceArchiveURL runtime_def len_labels)

lemma requestBody_labels:
  assumes "gcpConfig d = Some g" and "requestBody ext d name (Some c) = Return rendered"
  shows "fmlookup rendered ''labels'' =
           (if Labels c \<noteq> fmempty then Some (VLabels (Labels c)) else None)"
  using assms(2) [symmetric]
  by (simp add: requestBody_def Let_def cond_upd assms(1) Sprintf_functionName
        Sprintf_sourceArchiveURL runtime_def len_labels)

lemma requestBody_maxInstances:
  assumes "gcpConfig d = Some g" and "requestBody ext d name (Some c) = Return rendered"
  shows "fmlookup rendered ''maxInstances'' =
           (if 0 < MaxInstances c then Some (VInt (MaxInstances c)) else None)"
  using assms(2) [symmetric]
  by (simp add: requestBody_def Let_def cond_upd assms(1) Sprintf_functionName
        Sprintf_sourceArchiveURL runtime_def len_labels)

lemma requestBody_vpcConnector:
  assumes "gcpConfig d = Some g" and "requestBody ext d name (Some c) = Return rendered"
  shows "fmlookup rendered ''vpcConnector'' =
           (if VPCConnector c \<noteq> [] then Some (VString (VPCConnector c)) else None)"
  using assms(2) [symmetric]
  by (simp add: requestBody_def Let_def cond_upd assms(1) Sprintf_functionName
        Sprintf_sourceArchiveURL runtime_def len_labels)

lemma requestBody_default_dom:
  assumes "gcpConfig d = Some g" and "requestBody ext d name (Some c) = Return rendered"
    and "Timeout c = 0" and "MemorySize c = 0" and "ServiceAccountEmail c = []"
    and "Labels c = fmempty" and "MaxInstances c = 0" and "VPCConnector c = []"
  shows "fmdom rendered =
       {|''name'', ''description'', ''entryPoint'', ''runtime'', ''sourceArchiveUrl'',
        ''eventTrigger'', ''environmentVariables''|}"
  using assms(2) [symmetric]
  by (simp add: requestBody_def Let_def assms(1) assms(3-) insert_commute fcard_fempty)

section \<open>Claims about the rendered request body\<close>

text \<open>
  C2. For every function name and function configuration, each of the six optional
  fields is in the rendered request body exactly when its source value is not the
  default, and then holds that value: \<^verbatim>\<open>timeout\<close> when the duration is greater than
  zero (as the string \<^verbatim>\<open>Duration.String\<close> gives), \<^verbatim>\<open>memorySize\<close> when greater than
  zero, \<^verbatim>\<open>serviceAccountEmail\<close> when not empty, \<^verbatim>\<open>labels\<close> when not empty,
  \<^verbatim>\<open>maxInstances\<close> when greater than zero, \<^verbatim>\<open>vpcConnector\<close> when not empty. A key
  whose lookup is \<open>None\<close> is absent from the body; a duration or an integer below
  zero is not greater than zero and leaves its field out.
\<close>

theorem C2_optional_fields:
  assumes "gcpConfig d = Some g"
  shows "\<exists>rendered. requestBody ext d name (Some c) = Return rendered \<and>
     fmlookup rendered ''timeout'' =
       (if 0 < Timeout c then Some (VString (Duration_String ext (Timeout c))) else None) \<and>
     fmlookup rendered ''memorySize'' =
       (if 0 < MemorySize c then Some (VInt (MemorySize c)) else None) \<and>
     fmlookup rendered ''serviceAccountEmail'' =
       (if ServiceAccountEmail c \<noteq> [] then Some (VString (ServiceAccountEmail c))
        else None) \<and>
     fmlookup rendered ''labels'' =
       (if Labels c \<noteq> fmempty then Some (VLabels (Labels c)) else None) \<and>
     fmlookup rendered ''maxInstances'' =
       (if 0 < MaxInstances c then Some (VInt (MaxInstances c)) else None) \<and>
     fmlookup rendered ''vpcConnector'' =
       (if VPCConnector c \<noteq> [] then Some (VString (VPCConnector c)) else None)"
proof -
  obtain rendered where r: "requestBody ext d name (Some c) = Return rendered"
    using requestBody_returns [OF assms] by (rule exE)
  show ?thesis
    by (rule exI [of _ rendered], intro conjI)
       (rule r requestBody_timeout [OF assms r] requestBody_memorySize [OF assms r]
          requestBody_serviceAccountEmail [OF assms r] requestBody_labels [OF assms r]
          requestBody_maxInstances [OF assms r] requestBody_vpcConnector [OF assms r])+
qed

theorem C2_optional_fields_witness:
  "(\<exists>rendered.
     requestBody example_externals example_builder ''ps-full'' (Some full_config)
       = Return rendered \<and>
     fmlookup rendered ''timeout'' = Some (VString ''30s'') \<and>
     fmlookup rendered ''memorySize'' = Some (VInt 512) \<and>
     fmlookup rendered ''serviceAccountEmail'' =
       Some (VString ''beat@my-project.iam.gserviceaccount.com'') \<and>
     fmlookup rendered ''labels'' = Some (VLabels (fmupd ''team'' ''obs'' fmempty)) \<and>
     fmlookup rendered ''maxInstances'' = Some (VInt 3) \<and>
     fmlookup rendered ''vpcConnector'' = Some (VString ''connector-1'')) \<and>
   (\<exists>rendered.
     requestBody example_externals example_builder ''es-storage'' (Some es_storage_config)
       = Return rendered \<and>
     fmlookup rendered ''timeout'' = Some (VString ''30s'') \<and>
     fmlookup rendered ''memorySize'' = Some (VInt 256) \<and>
     fmlookup rendered ''serviceAccountEmail'' = None \<and>
     fmlookup rendered ''labels'' = None \<and>
     fmlookup rendered ''maxInstances'' = None \<and>
     fmlookup rendered ''vpcConnector'' = None)"
proof (rule conjI)
  have g: "gcpConfig example_builder = Some example_gcp_config"
    by (simp add: example_builder_def)
  from C2_optional_fields [OF g, of example_externals "''ps-full''" full_config]
  show "\<exists>rendered.
     requestBody example_externals example_builder ''ps-full'' (Some full_config)
       = Return rendered \<and>
     fmlookup rendered ''timeout'' = Some (VString ''30s'') \<and>
     fmlookup rendered ''memorySize'' = Some (VInt 512) \<and>
     fmlookup rendered ''serviceAccountEmail'' =
       Some (VString ''beat@my-project.iam.gserviceaccount.com'') \<and>
     fmlookup rendered ''labels'' = Some (VLabels (fmupd ''team'' ''obs'' fmempty)) \<and>
     fmlookup rendered ''maxInstances'' = Some (VInt 3) \<and>
     fmlookup rendered ''vpcConnector'' = Some (VString ''connector-1'')"
    by (simp add: full_config_def example_externals_def)
  from C2_optional_fields [OF g, of example_externals "''es-storage''" es_storage_config]
  show "\<exists>rendered.
     requestBody example_externals example_builder ''es-storage'' (Some es_storage_config)
       = Return rendered \<and>
     fmlookup rendered ''timeout'' = Some (VString ''30s'') \<and>
     fmlookup rendered ''memorySize'' = Some (VInt 256) \<and>
     fmlookup rendered ''serviceAccountEmail'' = None \<and>
     fmlookup rendered ''labels'' = None \<and>
     fmlookup rendered ''maxInstances'' = None \<and>
     fmlookup rendered ''vpcConnector'' = None"
    by (simp add: es_storage_config_def example_externals_def)
qed

text \<open>
  C3. Every request body the renderer produces holds the seven mandatory fields
  \<^verbatim>\<open>name\<close>, \<^verbatim>\<open>description\<close>, \<^verbatim>\<open>entryPoint\<close>, \<^verbatim>\<open>runtime\<close>, \<^verbatim>\<open>sourceArchiveUrl\<close>,
  \<^verbatim>\<open>eventTrigger\<close> and \<^verbatim>\<open>environmentVariables\<close>; and when the six optional values
  of the configuration are zero or empty, the body holds exactly those seven fields
  and none of the six optional ones.
\<close>

theorem C3_mandatory_fields:
  assumes "gcpConfig d = Some g"
  shows "\<exists>rendered. requestBody ext d name (Some c) = Return rendered \<and>
     {|''name'', ''description'', ''entryPoint'', ''runtime'', ''sourceArchiveUrl'',
        ''eventTrigger'', ''environmentVariables''|} |\<subseteq>| fmdom rendered \<and>
     (Timeout c = 0 \<and> MemorySize c = 0 \<and> ServiceAccountEmail c = [] \<and>
      Labels c = fmempty \<and> MaxInstances c = 0 \<and> VPCConnector c = [] \<longrightarrow>
        fmdom rendered =
          {|''name'', ''description'', ''entryPoint'', ''runtime'', ''sourceArchiveUrl'',
        ''eventTrigger'', ''environmentVariables''|} \<and>
        fmdom rendered |\<inter>|
          {|''timeout'', ''memorySize'', ''serviceAccountEmail'', ''labels'',
        ''maxInstances'', ''vpcConnector''|} = {||})"
proof -
  obtain rendered where r: "requestBody ext d name (Some c) = Return rendered"
    using requestBody_returns [OF assms] by (rule exE)
  note mandatory = requestBody_name [OF assms r] requestBody_description [OF assms r]
    requestBody_entryPoint [OF assms r] requestBody_runtime [OF assms r]
    requestBody_sourceArchiveUrl [OF assms r] requestBody_eventTrigger [OF assms r]
    requestBody_environmentVariables [OF assms r]
  note optional = requestBody_timeout [OF assms r] requestBody_memorySize [OF assms r]
    requestBody_serviceAccountEmail [OF assms r] requestBody_labels [OF assms r]
    requestBody_maxInstances [OF assms r] requestBody_vpcConnector [OF assms r]
  have present: "{|''name'', ''description'', ''entryPoint'', ''runtime'', ''sourceArchiveUrl'',
        ''eventTrigger'', ''environmentVariables''|} |\<subseteq>| fmdom rendered"
    by (simp add: fmlookup_dom_iff mandatory)
  have absent: "fmdom rendered |\<inter>|
          {|''timeout'', ''memorySize'', ''serviceAccountEmail'', ''labels'',
        ''maxInstances'', ''vpcConnector''|} = {||}"
    if "Timeout c = 0 \<and> MemorySize c = 0 \<and> ServiceAccountEmail c = [] \<and>
      Labels c = fmempty \<and> MaxInstances c = 0 \<and> VPCConnector c = []"
    using that by (simp add: fmlookup_dom_iff optional)
  have exact: "fmdom rendered =
          {|''name'', ''description'', ''entryPoint'', ''runtime'', ''sourceArchiveUrl'',
        ''eventTrigger'', ''environmentVariables''|}"
    if "Timeout c = 0 \<and> MemorySize c = 0 \<and> ServiceAccountEmail c = [] \<and>
      Labels c = fmempty \<and> MaxInstances c = 0 \<and> VPCConnector c = []"
    using that by (intro requestBody_default_dom [OF assms r]) simp_all
  show ?thesis
  proof (rule exI [of _ rendered], intro conjI impI)
    show "requestBody ext d name (Some c) = Return rendered" by (rule r)
    show "{|''name'', ''description'', ''entryPoint'', ''runtime'', ''sourceArchiveUrl'',
        ''eventTrigger'', ''environmentVariables''|} |\<subseteq>| fmdom rendered"
      by (rule present)
  qed (erule exact, erule absent)
qed

theorem C3_mandatory_fields_witness:
  "\<exists>rendered.
     requestBody example_externals example_builder ''ps-default'' (Some default_config)
       = Return rendered \<and>
     fmdom rendered =
       {|''name'', ''description'', ''entryPoint'', ''runtime'', ''sourceArchiveUrl'',
        ''eventTrigger'', ''environmentVariables''|}"
proof -
  have g: "gcpConfig example_builder = Some example_gcp_config"
    by (simp add: example_builder_def)
  have defaults: "Timeout default_config = 0 \<and> MemorySize default_config = 0 \<and>
      ServiceAccountEmail default_config = [] \<and> Labels default_config = fmempty \<and>
      MaxInstances default_config = 0 \<and> VPCConnector default_config = []"
    by (simp add: default_config_def)
  from C3_mandatory_fields [OF g, of example_externals "''ps-default''" default_config]
  obtain rendered where all:
    "requestBody example_externals example_builder ''ps-default'' (Some default_config)
       = Return rendered \<and>
     {|''name'', ''description'', ''entryPoint'', ''runtime'', ''sourceArchiveUrl'',
        ''eventTrigger'', ''environmentVariables''|} |\<subseteq>| fmdom rendered \<and>
     (Timeout default_config = 0 \<and> MemorySize default_config = 0 \<and>
      ServiceAccountEmail default_config = [] \<and> Labels default_config = fmempty \<and>
      MaxInstances default_config = 0 \<and> VPCConnector default_config = [] \<longrightarrow>
        fmdom rendered =
          {|''name'', ''description'', ''entryPoint'', ''runtime'', ''sourceArchiveUrl'',
        ''eventTrigger'', ''environmentVariables''|} \<and>
        fmdom rendered |\<inter>|
          {|''timeout'', ''memorySize'', ''serviceAccountEmail'', ''labels'',
        ''maxInstances'', ''vpcConnector''|} = {||})"
    by (rule exE)
  note exact = all [THEN conjunct2, THEN conjunct2, THEN mp, OF defaults, THEN conjunct1]
  show ?thesis
    by (rule exI [of _ rendered]) (rule conjI [OF all [THEN conjunct1] exact])
qed

text \<open>
  C4. For every function name passed to the renderer, the \<^verbatim>\<open>environmentVariables\<close>
  mapping of the rendered request body has exactly one entry: its key is
  \<^verbatim>\<open>ENABLED_FUNCTIONS\<close> and its value is that function name.
\<close>

theorem C4_environment_variables:
  assumes "gcpConfig d = Some g"
  shows "\<exists>rendered env. requestBody ext d name (Some c) = Return rendered \<and>
           fmlookup rendered ''environmentVariables'' = Some (VMapStr env) \<and>
           fmdom env = {|''ENABLED_FUNCTIONS''|} \<and>
           fmlookup env ''ENABLED_FUNCTIONS'' = Some (VString name)"
proof -
  obtain rendered where r: "requestBody ext d name (Some c) = Return rendered"
    using requestBody_returns [OF assms] by (rule exE)
  show ?thesis
    by (rule exI [of _ rendered], rule exI [of _ "fmap_of_list [(''ENABLED_FUNCTIONS'', VString name)]"])
       (simp add: r requestBody_environmentVariables [OF assms r])
qed

theorem C4_environment_variables_witness:
  "\<exists>rendered env.
     requestBody example_externals example_builder ''es-storage'' (Some es_storage_config)
       = Return rendered \<and>
     fmlookup rendered ''environmentVariables'' = Some (VMapStr env) \<and>
     fmdom env = {|''ENABLED_FUNCTIONS''|} \<and>
     fmlookup env ''ENABLED_FUNCTIONS'' = Some (VString ''es-storage'')"
proof -
  have g: "gcpConfig example_builder = Some example_gcp_config"
    by (simp add: example_builder_def)
  show ?thesis
    by (rule C4_environment_variables [OF g])
qed

text \<open>
  C5. For every function name and every builder whose configuration holds the
  project identifier P and the location L, the \<^verbatim>\<open>name\<close> field of the rendered
  request body is the string \<^verbatim>\<open>projects/P/locations/L/functions/{name}\<close>.
\<close>

theorem C5_name_field:
  assumes "gcpConfig d = Some g"
  shows "\<exists>rendered. requestBody ext d name (Some c) = Return rendered \<and>
           fmlookup rendered ''name'' = Some (VString
             (''projects/'' @ ProjectID g @ ''/locations/'' @ Location g
                @ ''/functions/'' @ name))"
proof -
  obtain rendered where r: "requestBody ext d name (Some c) = Return rendered"
    using requestBody_returns [OF assms] by (rule exE)
  show ?thesis
    by (rule exI [of _ rendered]) (rule conjI [OF r requestBody_name [OF assms r]])
qed

theorem C5_name_field_witness:
  "\<exists>rendered.
     requestBody example_externals example_builder ''es-storage'' (Some es_storage_config)
       = Return rendered \<and>
     fmlookup rendered ''name'' = Some (VString
       ''projects/my-project/locations/us-central1/functions/es-storage'')"
proof -
  have g: "gcpConfig example_builder = Some example_gcp_config"
    by (simp add: example_builder_def)
  from C5_name_field [OF g, of example_externals "''es-storage''" es_storage_config]
  show ?thesis
    by (simp add: example_gcp_config_def)
qed

section \<open>Properties of resolution, of the archive files and of the operations\<close>

lemma findFunction_returns:
  "\<exists>fn err. findFunction (Some p) name = Return (fn, err)"
  by (simp add: findFunction_def split: prod.split option.split Function.split)

lemma findFunction_error:
  assumes "FindFunctionByName p name = (fn, Some e)"
  shows "findFunction (Some p) name = Return (None, Some e)"
  using assms by (simp add: findFunction_def)

lemma findFunction_installer:
  assumes "FindFunctionByName p name = (Some (InstallerFunction i), None)"
  shows "findFunction (Some p) name = Return (Some i, None)"
  using assms by (simp add: findFunction_def)

lemma findFunction_incompatible:
  assumes "FindFunctionByName p name = (fn, None)"
    and "\<forall>i. fn \<noteq> Some (InstallerFunction i)"
  shows "findFunction (Some p) name =
           Return (None, Some (errors_New
             (''incompatible type received, expecting: 'functionManager'' @ [CHR 0x27])))"
  using assms by (simp add: findFunction_def split: option.split Function.split)

lemma findFunction_Some:
  assumes "findFunction (Some p) name = Return (Some i, err)"
  shows "err = None \<and> FindFunctionByName p name = (Some (InstallerFunction i), None)"
  using assms
  by (cases "FindFunctionByName p name")
     (simp add: findFunction_def split: option.splits Function.splits if_splits)

lemma path_elements_not_Nil: "path_elements s \<noteq> []"
  by (induction s) (auto split: list.split)

lemma path_elements_single:
  "CHR ''/'' \<notin> set a \<Longrightarrow> path_elements a = [a]"
  by (induction a) auto

lemma path_elements_append:
  "CHR ''/'' \<notin> set a \<Longrightarrow> path_elements (a @ CHR ''/'' # rest) = a # path_elements rest"
  by (induction a) (auto simp add: path_elements_not_Nil split: list.split)

lemma clean_elements_keep:
  assumes "e \<noteq> []" and "e \<noteq> ''.''" and "e \<noteq> ''..''"
  shows "clean_elements rooted out (e # es) = clean_elements rooted (e # out) es"
  using assms by simp

lemma filepath_Join_plain:
  assumes t: "t \<noteq> []" "CHR ''/'' \<notin> set t" "t \<noteq> ''.''" "t \<noteq> ''..''"
    and f: "f \<noteq> []" "CHR ''/'' \<notin> set f" "f \<noteq> ''.''" "f \<noteq> ''..''"
  shows "filepath_Join [''pkg'', t, f] = ''pkg/'' @ t @ ''/'' @ f"
proof -
  have joined: "strings_Join [''pkg'', t, f] ''/'' = ''pkg'' @ CHR ''/'' # (t @ CHR ''/'' # f)"
    by simp
  have pkg: "CHR ''/'' \<notin> set ''pkg''"
    by simp
  have "path_elements (''pkg'' @ CHR ''/'' # (t @ CHR ''/'' # f)) = [''pkg'', t, f]"
    by (simp only: path_elements_append [OF pkg] path_elements_append [OF t(2)]
          path_elements_single [OF f(2)])
  then have elems: "path_elements (strings_Join [''pkg'', t, f] ''/'') = [''pkg'', t, f]"
    by (simp only: joined)
  have "clean_elements False [] [''pkg'', t, f] = clean_elements False [''pkg''] [t, f]"
    by (rule clean_elements_keep) simp_all
  also have "\<dots> = clean_elements False [t, ''pkg''] [f]"
    by (rule clean_elements_keep [OF t(1,3,4)])
  also have "\<dots> = clean_elements False [f, t, ''pkg''] []"
    by (rule clean_elements_keep [OF f(1,3,4)])
  also have "\<dots> = [''pkg'', t, f]"
    by simp
  finally have cleaned: "clean_elements False [] [''pkg'', t, f] = [''pkg'', t, f]" .
  have "filepath_Clean (strings_Join [''pkg'', t, f] ''/'') = ''pkg/'' @ t @ ''/'' @ f"
    unfolding filepath_Clean_def elems by (simp add: cleaned del: clean_elements.simps)
  then show ?thesis
    by (simp add: filepath_Join_def)
qed

lemma go_file_plain:
  assumes "t \<noteq> []" "CHR ''/'' \<notin> set t"
  shows "t @ ''.go'' \<noteq> [] \<and> CHR ''/'' \<notin> set (t @ ''.go'') \<and>
         t @ ''.go'' \<noteq> ''.'' \<and> t @ ''.go'' \<noteq> ''..''"
proof -
  have "length (t @ ''.go'') \<ge> 3" by simp
  then have "t @ ''.go'' \<noteq> ''.''" "t @ ''.go'' \<noteq> ''..''" by auto
  with assms show ?thesis by simp
qed

lemma zipResources_plain:
  assumes "t \<noteq> []" "CHR ''/'' \<notin> set t" "t \<noteq> ''.''" "t \<noteq> ''..''"
  shows "zipResources t =
    [LocalFile (''pkg/'' @ t @ ''/'' @ t @ ''.go'') 493,
     LocalFile (''pkg/'' @ t @ ''/go.mod'') 429,
     LocalFile (''pkg/'' @ t @ ''/go.sum'') 429]"
proof -
  have "filepath_Join [''pkg'', t, t @ ''.go''] = ''pkg/'' @ t @ ''/'' @ t @ ''.go''"
    using assms go_file_plain [OF assms(1,2)] by (intro filepath_Join_plain) simp_all
  moreover have "filepath_Join [''pkg'', t, ''go.mod''] = ''pkg/'' @ t @ ''/'' @ ''go.mod''"
    using assms by (intro filepath_Join_plain) simp_all
  moreover have "filepath_Join [''pkg'', t, ''go.sum''] = ''pkg/'' @ t @ ''/'' @ ''go.sum''"
    using assms by (intro filepath_Join_plain) simp_all
  ultimately show ?thesis
    by (simp add: zipResources_def octal_def)
qed









lemma length_zipResources: "length (zipResources t) = 3"
  by (simp add: zipResources_def)

lemma foldl_zipResources:
  "foldl (\<lambda>resources f. resources @ zipResources f) acc fs = acc @ concat (map zipResources fs)"
  by (induction fs arbitrary: acc) simp_all

lemma length_concat_zipResources:
  "length (concat (map zipResources fs)) = 3 * length fs"
  by (induction fs) (simp_all add: length_zipResources)

lemma group_concat_zipResources:
  "k < length fs \<Longrightarrow>
     take 3 (drop (3 * k) (concat (map zipResources fs))) = zipResources (fs ! k)"
proof (induction fs arbitrary: k)
  case Nil
  then show ?case by simp
next
  case (Cons f fs)
  show ?case
  proof (cases k)
    case 0
    then show ?thesis by (simp add: length_zipResources)
  next
    case (Suc j)
    with Cons.prems have "j < length fs" by simp
    from Cons.IH [OF this] Suc show ?thesis
      by (simp add: length_zipResources)
  qed
qed

lemma execute_nil_log: "log d = None \<Longrightarrow> execute ext d name = ([], Panic)"
  by (simp add: execute_def)

lemma execute_resolution_error:
  assumes "log d = Some l" and "findFunction (provider d) name = Return (fn, Some e)"
  shows "execute ext d name =
           ([Debug ''Compressing all assets into an artifact''], Return (None, Some e))"
  using assms by (simp add: execute_def)

lemma execute_archive_error:
  assumes "log d = Some l" and "findFunction (provider d) name = Return (Some i, None)"
    and "MakeZip ext (zipResources (Name i)) = (bytes, Some e)"
  shows "execute ext d name =
           ([Debug ''Compressing all assets into an artifact''], Return (None, Some e))"
  using assms by (simp add: execute_def)


lemma execute_Return:
  assumes "execute ext d name = (entries, Return (fd, err))"
  shows "(\<exists>fn e. findFunction (provider d) name = Return (fn, Some e) \<and>
            fd = None \<and> err = Some e) \<or>
         (\<exists>i bytes e. findFunction (provider d) name = Return (Some i, None) \<and>
            MakeZip ext (zipResources (Name i)) = (bytes, Some e) \<and>
            fd = None \<and> err = Some e) \<or>
         (\<exists>i bytes rendered. findFunction (provider d) name = Return (Some i, None) \<and>
            MakeZip ext (zipResources (Name i)) = (bytes, None) \<and>
            requestBody ext d name (Config i) = Return rendered \<and>
            fd = Some \<lparr>raw = bytes, body = rendered\<rparr> \<and> err = None)"
  using assms unfolding execute_def Let_def
  by (simp split: option.splits outcome.splits prod.splits if_splits) blast+

lemma RawTemplate_resolution_error:
  assumes "findFunction (provider d) name = Return (fn, Some e)"
  shows "RawTemplate ext d name = Return ([], Some e)"
  using assms by (simp add: RawTemplate_def)

lemma RawTemplate_success:
  assumes "findFunction (provider d) name = Return (Some i, None)"
    and "requestBody ext d name (Config i) = Return rendered"
  shows "RawTemplate ext d name = Return (StringToPrint ext rendered, None)"
  using assms by (simp add: RawTemplate_def)

lemma RawTemplate_error:
  assumes "RawTemplate ext d name = Return (text, Some e)"
  shows "\<exists>fn. findFunction (provider d) name = Return (fn, Some e)"
  using assms unfolding RawTemplate_def
  by (simp split: option.splits outcome.splits prod.splits if_splits)

lemma requestBody_externals:
  assumes "Duration_String ext' = Duration_String ext"
  shows "requestBody ext' d name config = requestBody ext d name config"
  unfolding requestBody_def assms by (rule refl)

lemma RawTemplate_externals:
  assumes "Duration_String ext' = Duration_String ext"
    and "StringToPrint ext' = StringToPrint ext"
  shows "RawTemplate ext' d name = RawTemplate ext d name"
  unfolding RawTemplate_def requestBody_externals [OF assms(1)] assms(2) by (rule refl)

lemma RawTemplate_MakeZip:
  "RawTemplate (ext\<lparr>MakeZip := z\<rparr>) d name = RawTemplate ext d name"
  by (rule RawTemplate_externals) simp_all

section \<open>Claims about resolution and the archive files\<close>

text \<open>
  C7. Resolution returns a function descriptor exactly when the registry lookup by
  name succeeds and the object it returns is installable. When the registry reports
  an error (an unregistered name), that error is passed on and no descriptor is
  returned; when the lookup succeeds with an object that is not installable (or with
  \<^verbatim>\<open>nil\<close>), the error with the message \<^verbatim>\<open>incompatible type received, expecting:
  'functionManager'\<close> is returned and no descriptor.
\<close>

theorem C7_findFunction:
  "((\<exists>i err. findFunction (Some p) name = Return (Some i, err)) =
      (\<exists>i. FindFunctionByName p name = (Some (InstallerFunction i), None))) \<and>
   (FindFunctionByName p name = (Some (InstallerFunction i), None) \<longrightarrow>
      findFunction (Some p) name = Return (Some i, None)) \<and>
   (FindFunctionByName p name = (fn, Some e) \<longrightarrow>
      findFunction (Some p) name = Return (None, Some e)) \<and>
   (FindFunctionByName p name = (fn, None) \<and> (\<forall>i. fn \<noteq> Some (InstallerFunction i)) \<longrightarrow>
      findFunction (Some p) name =
        Return (None, Some (errors_New
          (''incompatible type received, expecting: 'functionManager'' @ [CHR 0x27]))))"
proof (intro conjI impI)
  show "(\<exists>i err. findFunction (Some p) name = Return (Some i, err)) =
      (\<exists>i. FindFunctionByName p name = (Some (InstallerFunction i), None))"
    using findFunction_Some findFunction_installer by blast
qed (simp_all add: findFunction_error findFunction_installer findFunction_incompatible)

theorem C7_findFunction_witness:
  "findFunction (Some example_provider) ''es-storage'' =
     Return (Some (installer ''storage'' (Some es_storage_config)), None) \<and>
   findFunction (Some example_provider) ''missing-fn'' =
     Return (None, Some (foreign_error ''NotFoundError'')) \<and>
   findFunction (Some example_provider) ''not-installable'' =
     Return (None, Some (errors_New
       (''incompatible type received, expecting: 'functionManager'' @ [CHR 0x27])))"
proof (intro conjI)
  show "findFunction (Some example_provider) ''es-storage'' =
     Return (Some (installer ''storage'' (Some es_storage_config)), None)"
    by (rule C7_findFunction [THEN conjunct2, THEN conjunct1, THEN mp])
       (simp add: example_provider_def)
  show "findFunction (Some example_provider) ''missing-fn'' =
     Return (None, Some (foreign_error ''NotFoundError''))"
    by (rule C7_findFunction [where fn = None,
          THEN conjunct2, THEN conjunct2, THEN conjunct1, THEN mp])
       (simp add: example_provider_def)
  show "findFunction (Some example_provider) ''not-installable'' =
     Return (None, Some (errors_New
       (''incompatible type received, expecting: 'functionManager'' @ [CHR 0x27])))"
    by (rule C7_findFunction [where fn = "Some (OtherFunction ''aws.SQS'')",
          THEN conjunct2, THEN conjunct2, THEN conjunct2, THEN mp])
       (simp add: example_provider_def)
qed




text \<open>
  C6. The build operation is all-or-nothing. When resolution fails, or when
  resolution succeeds and the archive writer fails, it returns that error and no
  function data (neither archive bytes nor request body), having logged only its
  first message. Whenever it returns, it returns either function data or an error,
  never both and never neither. The archive failure is reported whatever rendering
  would do: nothing about the builder's configuration or the function's
  configuration is assumed. In the instance after the theorem the builder has no
  configuration, so that rendering would panic, yet the build returns the archive
  writer's error.
\<close>

theorem C6_build_all_or_nothing:
  assumes "log d = Some l"
  shows "(findFunction (provider d) name = Return (fn, Some e) \<longrightarrow>
            execute ext d name =
              ([Debug ''Compressing all assets into an artifact''],
               Return (None, Some e))) \<and>
         (findFunction (provider d) name = Return (Some i, None) \<and>
          MakeZip ext (zipResources (Name i)) = (bytes, Some e) \<longrightarrow>
            execute ext d name =
              ([Debug ''Compressing all assets into an artifact''],
               Return (None, Some e))) \<and>
         (execute ext d name = (entries, Return (fd, err)) \<longrightarrow>
            (fd = None) = (err \<noteq> None))"
proof (intro conjI impI)
  show "execute ext d name =
          ([Debug ''Compressing all assets into an artifact''], Return (None, Some e))"
    if "findFunction (provider d) name = Return (fn, Some e)"
    by (rule execute_resolution_error [OF assms that])
  show "execute ext d name =
          ([Debug ''Compressing all assets into an artifact''], Return (None, Some e))"
    if "findFunction (provider d) name = Return (Some i, None) \<and>
        MakeZip ext (zipResources (Name i)) = (bytes, Some e)"
    by (rule execute_archive_error [OF assms that [THEN conjunct1] that [THEN conjunct2]])
  show "(fd = None) = (err \<noteq> None)"
    if "execute ext d name = (entries, Return (fd, err))"
    using execute_Return [OF that] by auto
qed

theorem C6_build_all_or_nothing_witness:
  "execute example_externals example_builder ''missing-fn'' =
     ([Debug ''Compressing all assets into an artifact''],
      Return (None, Some (foreign_error ''NotFoundError''))) \<and>
   requestBody example_externals unconfigured_builder ''no-files'' (Some default_config) =
     Panic \<and>
   execute example_externals unconfigured_builder ''no-files'' =
     ([Debug ''Compressing all assets into an artifact''],
      Return (None, Some (foreign_error ''IOError'')))"
proof (intro conjI)
  have logger: "log example_builder = Some (Logger ''functionbeat'')"
    by (simp add: example_builder_def)
  have missing: "findFunction (provider example_builder) ''missing-fn'' =
      Return (None, Some (foreign_error ''NotFoundError''))"
    by (simp add: example_builder_def example_provider_def findFunction_def)
  show "execute example_externals example_builder ''missing-fn'' =
     ([Debug ''Compressing all assets into an artifact''],
      Return (None, Some (foreign_error ''NotFoundError'')))"
    by (rule C6_build_all_or_nothing [OF logger, THEN conjunct1, THEN mp, OF missing])
  show "requestBody example_externals unconfigured_builder ''no-files'' (Some default_config) =
     Panic"
    by (simp add: requestBody_nil_gcpConfig unconfigured_builder_def)
  have logger': "log unconfigured_builder = Some (Logger ''functionbeat'')"
    by (simp add: unconfigured_builder_def)
  have found: "findFunction (provider unconfigured_builder) ''no-files'' =
      Return (Some (installer ''broken'' (Some default_config)), None)"
    by (simp add: unconfigured_builder_def example_provider_def findFunction_def)
  have "zipResources ''broken'' =
      [LocalFile ''pkg/broken/broken.go'' 493, LocalFile ''pkg/broken/go.mod'' 429,
       LocalFile ''pkg/broken/go.sum'' 429]"
    using zipResources_plain [of "''broken''"] by simp
  then have zip: "MakeZip example_externals
      (zipResources (Name (installer ''broken'' (Some default_config)))) =
        ([], Some (foreign_error ''IOError''))"
    by (simp add: example_externals_def)
  show "execute example_externals unconfigured_builder ''no-files'' =
     ([Debug ''Compressing all assets into an artifact''],
      Return (None, Some (foreign_error ''IOError'')))"
    by (rule C6_build_all_or_nothing [OF logger', THEN conjunct2, THEN conjunct1, THEN mp,
          OF conjI [OF found zip]])
qed

section \<open>Claims about rendering only, listing the resources and construction\<close>

text \<open>
  C8. For every name, \<^verbatim>\<open>RawTemplate\<close> returns an error exactly when resolution
  returns one, and it is that error, the one the build operation returns for the
  same name; it assembles no archive (its result is the same whatever the archive
  writer is, and a failing archive writer does not make it fail); and when it
  succeeds it returns the printable form of the request body that the renderer
  gives for that name and the resolved function's configuration, which is the body
  of every successful build.
\<close>

theorem C8_RawTemplate:
  "((\<exists>text e. RawTemplate ext d name = Return (text, Some e)) =
      (\<exists>fn e. findFunction (provider d) name = Return (fn, Some e))) \<and>
   (findFunction (provider d) name = Return (fn, Some e) \<longrightarrow>
      RawTemplate ext d name = Return ([], Some e) \<and>
      (log d \<noteq> None \<longrightarrow> snd (execute ext d name) = Return (None, Some e))) \<and>
   RawTemplate (ext\<lparr>MakeZip := z\<rparr>) d name = RawTemplate ext d name \<and>
   (findFunction (provider d) name = Return (Some i, None) \<and>
    requestBody ext d name (Config i) = Return rendered \<longrightarrow>
      RawTemplate ext d name = Return (StringToPrint ext rendered, None)) \<and>
   (execute ext d name = (entries, Return (Some fd, err)) \<longrightarrow>
      RawTemplate ext d name = Return (StringToPrint ext (body fd), None))"
proof (intro conjI impI)
  show "(\<exists>text e. RawTemplate ext d name = Return (text, Some e)) =
      (\<exists>fn e. findFunction (provider d) name = Return (fn, Some e))"
    using RawTemplate_error RawTemplate_resolution_error by blast
  show "RawTemplate ext d name = Return ([], Some e)"
    if "findFunction (provider d) name = Return (fn, Some e)"
    by (rule RawTemplate_resolution_error [OF that])
  show "snd (execute ext d name) = Return (None, Some e)"
    if "findFunction (provider d) name = Return (fn, Some e)" and "log d \<noteq> None"
  proof -
    from that(2) obtain l where "log d = Some l" by auto
    from execute_resolution_error [OF this that(1)] show ?thesis by simp
  qed
  show "RawTemplate (ext\<lparr>MakeZip := z\<rparr>) d name = RawTemplate ext d name"
    by (rule RawTemplate_MakeZip)
  show "RawTemplate ext d name = Return (StringToPrint ext rendered, None)"
    if "findFunction (provider d) name = Return (Some i, None) \<and>
        requestBody ext d name (Config i) = Return rendered"
    by (rule RawTemplate_success [OF that [THEN conjunct1] that [THEN conjunct2]])
  show "RawTemplate ext d name = Return (StringToPrint ext (body fd), None)"
    if "execute ext d name = (entries, Return (Some fd, err))"
    using execute_Return [OF that] by (auto simp add: RawTemplate_success)
qed

theorem C8_RawTemplate_witness:
  "RawTemplate example_externals example_builder ''es-storage'' =
     Return (''{es-storage}'', None) \<and>
   RawTemplate example_externals example_builder ''missing-fn'' =
     Return ([], Some (foreign_error ''NotFoundError'')) \<and>
   snd (execute example_externals example_builder ''missing-fn'') =
     Return (None, Some (foreign_error ''NotFoundError'')) \<and>
   RawTemplate (example_externals
       \<lparr>MakeZip := (\<lambda>resources. ([], Some (foreign_error ''IOError'')))\<rparr>)
     example_builder ''es-storage'' = Return (''{es-storage}'', None)"
proof -
  let ?i = "installer ''storage'' (Some es_storage_config)"
  let ?z = "\<lambda>resources :: Resource list. ([] :: byte list, Some (foreign_error ''IOError''))"
  have g: "gcpConfig example_builder = Some example_gcp_config"
    and logger: "log example_builder \<noteq> None"
    by (simp_all add: example_builder_def)
  have found: "findFunction (provider example_builder) ''es-storage'' = Return (Some ?i, None)"
    by (simp add: example_builder_def example_provider_def findFunction_def)
  have missing: "findFunction (provider example_builder) ''missing-fn'' =
      Return (None, Some (foreign_error ''NotFoundError''))"
    by (simp add: example_builder_def example_provider_def findFunction_def)
  obtain rendered where rendered:
    "requestBody example_externals example_builder ''es-storage'' (Some es_storage_config) =
       Return rendered"
    using requestBody_returns [OF g] by blast
  have printed: "StringToPrint example_externals rendered = ''{es-storage}''"
    using requestBody_name [OF g rendered]
    by (simp add: example_externals_def example_gcp_config_def)
  note c8 = C8_RawTemplate [of example_externals example_builder]
  have preview: "RawTemplate example_externals example_builder ''es-storage'' =
      Return (''{es-storage}'', None)"
    using c8 [of "''es-storage''" _ _ _ ?i rendered, THEN conjunct2, THEN conjunct2,
        THEN conjunct2, THEN conjunct1] found rendered printed
    by simp
  note failed = c8 [of "''missing-fn''" None "foreign_error ''NotFoundError''",
      THEN conjunct2, THEN conjunct1, THEN mp, OF missing]
  have no_archive: "RawTemplate (example_externals\<lparr>MakeZip := ?z\<rparr>) example_builder
      ''es-storage'' = Return (''{es-storage}'', None)"
    using c8 [of "''es-storage''" _ _ ?z, THEN conjunct2, THEN conjunct2, THEN conjunct1]
      preview
    by simp
  show ?thesis
    by (intro conjI)
       (rule preview failed [THEN conjunct1] failed [THEN conjunct2, THEN mp, OF logger]
          no_archive)+
qed

text \<open>
  C9, as the code has it. \<^verbatim>\<open>ZipResources\<close> returns a slice and no error value. When
  the registry enumeration fails, the result is the \<^verbatim>\<open>nil\<close> slice, whatever the
  error was. When the enumeration succeeds with N function types, the result holds
  the three file descriptors of each type, 3 * N in all, in the order of the types:
  the k-th group of three is the file list of the k-th type.
\<close>

theorem C9_ZipResources:
  "(snd (ListFunctions ext ''gcp'') \<noteq> None \<longrightarrow> ZipResources ext = None) \<and>
   (ListFunctions ext ''gcp'' = (functions, None) \<longrightarrow>
      (\<exists>resources. ZipResources ext = Some resources \<and>
         resources = concat (map zipResources functions) \<and>
         length resources = 3 * length functions \<and>
         (\<forall>k. k < length functions \<longrightarrow>
            take 3 (drop (3 * k) resources) = zipResources (functions ! k))))"
proof (intro conjI impI)
  show "ZipResources ext = None" if "snd (ListFunctions ext ''gcp'') \<noteq> None"
    using that by (cases "ListFunctions ext ''gcp''") (simp add: ZipResources_def)
  show "\<exists>resources. ZipResources ext = Some resources \<and>
         resources = concat (map zipResources functions) \<and>
         length resources = 3 * length functions \<and>
         (\<forall>k. k < length functions \<longrightarrow>
            take 3 (drop (3 * k) resources) = zipResources (functions ! k))"
    if "ListFunctions ext ''gcp'' = (functions, None)"
    using that
    by (simp add: ZipResources_def foldl_zipResources length_concat_zipResources
          group_concat_zipResources)
qed

theorem C9_ZipResources_witness:
  "ZipResources example_externals =
     Some [LocalFile ''pkg/storage/storage.go'' 493, LocalFile ''pkg/storage/go.mod'' 429,
           LocalFile ''pkg/storage/go.sum'' 429, LocalFile ''pkg/pubsub/pubsub.go'' 493,
           LocalFile ''pkg/pubsub/go.mod'' 429, LocalFile ''pkg/pubsub/go.sum'' 429] \<and>
   ZipResources (failing_registry ''registry unavailable'' :: string externals) = None"
proof (intro conjI)
  have listed: "ListFunctions example_externals ''gcp'' = ([''storage'', ''pubsub''], None)"
    by (simp add: example_externals_def)
  from C9_ZipResources [of example_externals "[''storage'', ''pubsub'']",
      THEN conjunct2, THEN mp, OF listed]
  show "ZipResources example_externals =
     Some [LocalFile ''pkg/storage/storage.go'' 493, LocalFile ''pkg/storage/go.mod'' 429,
           LocalFile ''pkg/storage/go.sum'' 429, LocalFile ''pkg/pubsub/pubsub.go'' 493,
           LocalFile ''pkg/pubsub/go.mod'' 429, LocalFile ''pkg/pubsub/go.sum'' 429]"
    using zipResources_plain [of "''storage''"] zipResources_plain [of "''pubsub''"]
    by auto
  have "snd (ListFunctions (failing_registry ''registry unavailable'' :: string externals)
          ''gcp'') \<noteq> None"
    by (simp add: failing_registry_def)
  then show "ZipResources (failing_registry ''registry unavailable'' :: string externals) = None"
    by (rule C9_ZipResources [THEN conjunct1, THEN mp])
qed

text \<open>
  The claim C9 as the specification states it does not hold: two registries that fail
  with different errors give the caller the same \<^verbatim>\<open>nil\<close> slice, so the failure is
  not handed to the caller.
\<close>

theorem C9_error_swallowed:
  "snd (ListFunctions (failing_registry ''registry unavailable'' :: string externals) ''gcp'') =
     Some (foreign_error ''registry unavailable'') \<and>
   snd (ListFunctions (failing_registry ''permission denied'' :: string externals) ''gcp'') =
     Some (foreign_error ''permission denied'') \<and>
   ZipResources (failing_registry ''registry unavailable'' :: string externals) = None \<and>
   ZipResources (failing_registry ''permission denied'' :: string externals) = None"
  by (simp add: failing_registry_def ZipResources_def)

text \<open>
  C10. When unpacking the configuration fails, \<^verbatim>\<open>NewTemplateBuilder\<close> returns the
  unpacking error together with a builder that is not \<^verbatim>\<open>nil\<close> and whose three
  fields are all \<^verbatim>\<open>nil\<close>. When unpacking succeeds, it returns no error and a builder
  that holds exactly the logger and the provider it was given and the configuration
  that was unpacked.
\<close>

theorem C10_NewTemplateBuilder:
  "(Unpack cfg \<lparr>ProjectID = [], Location = [], FunctionStorage = []\<rparr> = (gcpCfg, Some e) \<longrightarrow>
      NewTemplateBuilder logger cfg p =
        (Some \<lparr>provider = None, log = None, gcpConfig = None\<rparr>, Some e)) \<and>
   (Unpack cfg \<lparr>ProjectID = [], Location = [], FunctionStorage = []\<rparr> = (gcpCfg, None) \<longrightarrow>
      NewTemplateBuilder logger cfg p =
        (Some \<lparr>provider = p, log = logger, gcpConfig = Some gcpCfg\<rparr>, None))"
  by (simp add: NewTemplateBuilder_def)

theorem C10_NewTemplateBuilder_witness:
  "NewTemplateBuilder (Some (Logger ''functionbeat'')) invalid_cfg (Some example_provider) =
     (Some \<lparr>provider = None, log = None, gcpConfig = None\<rparr>,
      Some (foreign_error ''missing required field accessing location_id'')) \<and>
   NewTemplateBuilder (Some (Logger ''functionbeat'')) valid_cfg (Some example_provider) =
     (Some example_builder, None)"
proof (intro conjI)
  show "NewTemplateBuilder (Some (Logger ''functionbeat'')) invalid_cfg (Some example_provider) =
     (Some \<lparr>provider = None, log = None, gcpConfig = None\<rparr>,
      Some (foreign_error ''missing required field accessing location_id''))"
    by (rule C10_NewTemplateBuilder [THEN conjunct1, THEN mp]) (simp add: invalid_cfg_def)
  have "NewTemplateBuilder (Some (Logger ''functionbeat'')) valid_cfg (Some example_provider) =
     (Some \<lparr>provider = Some example_provider, log = Some (Logger ''functionbeat''),
            gcpConfig = Some example_gcp_config\<rparr>, None)"
    by (rule C10_NewTemplateBuilder [THEN conjunct2, THEN mp]) (simp add: valid_cfg_def)
  then show "NewTemplateBuilder (Some (Logger ''functionbeat'')) valid_cfg
      (Some example_provider) = (Some example_builder, None)"
    by (simp add: example_builder_def)
qed

end
